theory Spec2Isabelle
  imports Complex_Main
begin

section \<open>Numbers and strings of the script\<close>

text \<open>
  The script works on millisecond time stamps (\<open>Date.getTime()\<close>) and on small counters.
  These are JavaScript numbers holding integers far below \<open>2^53\<close>, where the double
  arithmetic of \<open>+\<close>, \<open>-\<close>, \<open>*\<close>, \<open>%\<close> and \<open>Math.floor(a / b)\<close> is exact; they
  are modelled as \<open>int\<close>.
\<close>

definition js_rem :: "int \<Rightarrow> int \<Rightarrow> int" where
  \<comment> \<open>JavaScript \<open>a % b\<close>: the result takes the sign of the dividend.\<close>
  "js_rem a b = (if a < 0 then - ((- a) mod \<bar>b\<bar>) else a mod \<bar>b\<bar>)"

definition floor_div :: "int \<Rightarrow> int \<Rightarrow> int" where
  \<comment> \<open>\<open>Math.floor(a / b)\<close> on integers, \<open>b\<close> a positive constant.\<close>
  "floor_div a b = a div b"

fun digits :: "nat \<Rightarrow> string" where
  "digits n =
     (if n < 10 then [''0123456789'' ! n]
      else digits (n div 10) @ [''0123456789'' ! (n mod 10)])"

declare digits.simps [simp del]

definition String_js :: "int \<Rightarrow> string" where
  \<comment> \<open>\<open>String(num)\<close> on an integer: decimal digits, a minus sign when negative.\<close>
  "String_js n = (if n < 0 then CHR ''-'' # digits (nat (- n)) else digits (nat n))"

definition padStart :: "nat \<Rightarrow> char \<Rightarrow> string \<Rightarrow> string" where
  \<comment> \<open>\<open>s.padStart(target, c)\<close> with a one-character filler.\<close>
  "padStart target c s =
     (if target \<le> length s then s else replicate (target - length s) c @ s)"

definition padZero :: "int \<Rightarrow> string" where
  "padZero num = padStart 2 (CHR ''0'') (String_js num)"

section \<open>The countdown's time units\<close>

record timeUnits =
  days :: int
  hours :: int
  minutes :: int
  seconds :: int

definition calculateTimeUnits :: "int \<Rightarrow> timeUnits" where
  "calculateTimeUnits distance =
     \<lparr> days = floor_div distance (1000 * 60 * 60 * 24),
       hours = floor_div (js_rem distance (1000 * 60 * 60 * 24)) (1000 * 60 * 60),
       minutes = floor_div (js_rem distance (1000 * 60 * 60)) (1000 * 60),
       seconds = floor_div (js_rem distance (1000 * 60)) 1000 \<rparr>"

definition urgent_condition :: "timeUnits \<Rightarrow> bool" where
  \<comment> \<open>The test of \<open>addPulseEffect\<close>: \<open>timeUnits.days === 0 && timeUnits.hours < 24\<close>.\<close>
  "urgent_condition tu \<longleftrightarrow> days tu = 0 \<and> hours tu < 24"

definition days_zero_condition :: "timeUnits \<Rightarrow> bool" where
  \<comment> \<open>The simpler predicate the urgent test is compared with.\<close>
  "days_zero_condition tu \<longleftrightarrow> days tu = 0"

section \<open>Page elements\<close>

text \<open>
  One record stands for a DOM element, with the properties the script reads or writes.
  A style value written from a string literal is \<open>Lit\<close> of that literal; a value the
  script builds from a computed number keeps the number instead of its printed form.
  \<open>innerHTML\<close> is what the element's subtree was built from: the page's own markup, or a
  text assigned by the script. The long template literals of the source are named by
  constructors.
\<close>

datatype css =
    Unset
  | Lit string
  | Rgba int int int rat          \<comment> \<open>\<open>rgba(r, g, b, alpha)\<close>\<close>
  | TranslateY_Rotate rat rat     \<comment> \<open>\<open>translateY(<y>px) rotate(<r>deg)\<close>\<close>

datatype markup =
    PageMarkup                    \<comment> \<open>the subtree the page was loaded with\<close>
  | ExpiredMessage                \<comment> \<open>the template literal of \<open>handleExpiration\<close>\<close>

datatype stylesheet =
    UrgentPulseStyle              \<comment> \<open>the style text of \<open>addVisualEffects\<close>\<close>
  | ExpiredBounceStyle            \<comment> \<open>the style text of \<open>handleExpiration\<close>\<close>

record element =
  textContent :: string
  innerHTML :: markup
  classList :: "string list"
  opacity :: css
  transform :: css
  transition :: css
  transitionDelay :: css
  color :: css
  background :: css
  backdropFilter :: css

definition classList_add :: "string \<Rightarrow> element \<Rightarrow> element" where
  \<comment> \<open>\<open>el.classList.add(token)\<close>: a token set, kept in insertion order.\<close>
  "classList_add tok el =
     (if tok \<in> set (classList el) then el else el\<lparr>classList := classList el @ [tok]\<rparr>)"

section \<open>CountdownTimer\<close>

datatype js_error = TypeError

datatype unit_key = Days | Hours | Minutes | Seconds

definition unit_keys :: "unit_key list" where
  \<comment> \<open>\<open>Object.keys(timeUnits)\<close>, in the order the object literal lists them.\<close>
  "unit_keys = [Days, Hours, Minutes, Seconds]"

fun unit_value :: "timeUnits \<Rightarrow> unit_key \<Rightarrow> int" where
  "unit_value tu Days = days tu"
| "unit_value tu Hours = hours tu"
| "unit_value tu Minutes = minutes tu"
| "unit_value tu Seconds = seconds tu"

text \<open>
  The state of one \<open>CountdownTimer\<close> together with the part of the browser it acts on.
  \<open>elements\<close> and \<open>container\<close> are the results of the five \<open>getElementById\<close> lookups
  (\<open>None\<close> for \<open>null\<close>); five different ids give five different elements, so they are
  held by value. \<open>interval\<close> is \<open>this.interval\<close>. \<open>activeIntervals\<close> holds the handles of
  the repeating timers that are running, \<open>nextHandle\<close> the next fresh handle,
  \<open>pendingTimeouts\<close> the callbacks of \<open>animateNumberChange\<close> waiting for their 150 ms (the
  field and the new text each one captured; their handles are discarded by the source),
  and \<open>headStyles\<close> the style elements appended to \<open>document.head\<close>.
\<close>

record countdown =
  endDate :: int
  elements :: "unit_key \<Rightarrow> element option"
  container :: "element option"
  interval :: "nat option"
  activeIntervals :: "nat list"
  nextHandle :: nat
  pendingTimeouts :: "(unit_key \<times> string) list"
  headStyles :: "stylesheet list"

definition countdownDays :: int where
  "countdownDays = 3"

definition setInterval :: "countdown \<Rightarrow> countdown" where
  \<comment> \<open>\<open>this.interval = setInterval(() => this.updateDisplay(), 1000)\<close>\<close>
  "setInterval s =
     s\<lparr> interval := Some (nextHandle s),
        activeIntervals := activeIntervals s @ [nextHandle s],
        nextHandle := Suc (nextHandle s) \<rparr>"

definition clearInterval :: "nat option \<Rightarrow> countdown \<Rightarrow> countdown" where
  \<comment> \<open>Clearing \<open>null\<close> or a handle that is not active does nothing.\<close>
  "clearInterval h s =
     (case h of
        None \<Rightarrow> s
      | Some i \<Rightarrow> s\<lparr>activeIntervals := removeAll i (activeIntervals s)\<rparr>)"

definition animateNumberChange :: "unit_key \<Rightarrow> string \<Rightarrow> countdown \<Rightarrow> countdown" where
  \<comment> \<open>The element is \<open>this.elements[unit]\<close>; the text is replaced only by the timeout.\<close>
  "animateNumberChange unit newValue s =
     s\<lparr> elements := (elements s)(unit :=
          map_option (\<lambda>el. el\<lparr>transform := Lit ''scale(1.1)'', color := Lit ''#f5576c''\<rparr>)
            (elements s unit)),
        pendingTimeouts := pendingTimeouts s @ [(unit, newValue)],
        nextHandle := Suc (nextHandle s) \<rparr>"

definition timeout_fires :: "countdown \<Rightarrow> countdown" where
  \<comment> \<open>The oldest waiting callback of \<open>animateNumberChange\<close> runs.\<close>
  "timeout_fires s =
     (case pendingTimeouts s of
        [] \<Rightarrow> s
      | (unit, newValue) # rest \<Rightarrow>
          s\<lparr> elements := (elements s)(unit :=
               map_option
                 (\<lambda>el. el\<lparr>textContent := newValue, transform := Lit ''scale(1)'', color := Lit []\<rparr>)
                 (elements s unit)),
             pendingTimeouts := rest \<rparr>)"

definition update_unit :: "timeUnits \<Rightarrow> countdown \<Rightarrow> unit_key \<Rightarrow> countdown" where
  \<comment> \<open>The body of the \<open>forEach\<close> in \<open>updateElements\<close>.\<close>
  "update_unit tu s unit =
     (case elements s unit of
        None \<Rightarrow> s
      | Some el \<Rightarrow>
          (let newValue = padZero (unit_value tu unit)
           in if textContent el \<noteq> newValue then animateNumberChange unit newValue s else s))"

definition updateElements :: "timeUnits \<Rightarrow> countdown \<Rightarrow> countdown" where
  "updateElements tu s = foldl (update_unit tu) s unit_keys"

definition addPulseEffect :: "timeUnits \<Rightarrow> countdown \<Rightarrow> js_error + countdown" where
  "addPulseEffect tu s =
     (if urgent_condition tu then
        (case container s of
           None \<Rightarrow> Inl TypeError
         | Some c \<Rightarrow> Inr (s\<lparr>container := Some (classList_add ''urgent'' c)\<rparr>))
      else Inr s)"

definition addVisualEffects :: "countdown \<Rightarrow> countdown" where
  "addVisualEffects s = s\<lparr>headStyles := headStyles s @ [UrgentPulseStyle]\<rparr>"

definition handleExpiration :: "countdown \<Rightarrow> js_error + countdown" where
  \<comment> \<open>With no container the assignment to \<open>innerHTML\<close> throws, after the timer was cleared.\<close>
  "handleExpiration s =
     (let s1 = clearInterval (interval s) s
      in case container s1 of
           None \<Rightarrow> Inl TypeError
         | Some c \<Rightarrow>
             Inr (s1\<lparr> container := Some (c\<lparr>innerHTML := ExpiredMessage\<rparr>),
                       headStyles := headStyles s1 @ [ExpiredBounceStyle] \<rparr>))"

definition updateDisplay :: "int \<Rightarrow> countdown \<Rightarrow> js_error + countdown" where
  \<comment> \<open>\<open>now\<close> is the clock reading \<open>new Date().getTime()\<close> of this call.\<close>
  "updateDisplay now s =
     (let distance = endDate s - now
      in if distance < 0 then handleExpiration s
         else (let tu = calculateTimeUnits distance
               in addPulseEffect tu (updateElements tu s)))"

definition startCountdown :: "int \<Rightarrow> countdown \<Rightarrow> js_error + countdown" where
  "startCountdown now s =
     (case updateDisplay now s of
        Inl e \<Rightarrow> Inl e
      | Inr s1 \<Rightarrow> Inr (setInterval s1))"

definition init :: "int \<Rightarrow> countdown \<Rightarrow> js_error + countdown" where
  "init now s =
     (if container s = None then Inr s
      else (case startCountdown now s of
              Inl e \<Rightarrow> Inl e
            | Inr s1 \<Rightarrow> Inr (addVisualEffects s1)))"

definition CountdownTimer :: "int \<Rightarrow> int \<Rightarrow> countdown \<Rightarrow> js_error + countdown" where
  \<comment> \<open>The constructor, run on a page whose lookups give \<open>elements s\<close> and \<open>container s\<close>;
      \<open>t0\<close> is the clock read for the deadline, \<open>now\<close> the one read by the first
      \<open>updateDisplay\<close>.\<close>
  "CountdownTimer t0 now s =
     init now (s\<lparr> endDate := t0 + countdownDays * 24 * 60 * 60 * 1000, interval := None \<rparr>)"

text \<open>
  What the browser runs afterwards. \<open>interval_fires\<close> is the browser's side of the
  repeating timer: the callback runs only while the handle is active. \<open>run_callbacks\<close>
  runs the script's two callbacks in any order and at any clock readings, stopping at the
  first exception.
\<close>

definition interval_fires :: "int \<Rightarrow> countdown \<Rightarrow> js_error + countdown" where
  "interval_fires now s =
     (case interval s of
        None \<Rightarrow> Inr s
      | Some i \<Rightarrow> if i \<in> set (activeIntervals s) then updateDisplay now s else Inr s)"

datatype callback = IntervalCallback int | TimeoutCallback

fun run_callback :: "callback \<Rightarrow> countdown \<Rightarrow> js_error + countdown" where
  "run_callback (IntervalCallback now) s = updateDisplay now s"
| "run_callback TimeoutCallback s = Inr (timeout_fires s)"

fun run_callbacks :: "callback list \<Rightarrow> countdown \<Rightarrow> js_error + countdown" where
  "run_callbacks [] s = Inr s"
| "run_callbacks (c # cs) s =
     (case run_callback c s of
        Inl e \<Rightarrow> Inl e
      | Inr s1 \<Rightarrow> run_callbacks cs s1)"

fun run_interval :: "int list \<Rightarrow> countdown \<Rightarrow> js_error + countdown" where
  \<comment> \<open>The repeating timer comes due once for each clock reading of the list.\<close>
  "run_interval [] s = Inr s"
| "run_interval (now # nows) s =
     (case interval_fires now s of
        Inl e \<Rightarrow> Inl e
      | Inr s1 \<Rightarrow> run_interval nows s1)"

definition flush_timeouts :: "countdown \<Rightarrow> countdown" where
  \<comment> \<open>Every waiting timeout runs, oldest first.\<close>
  "flush_timeouts s = (timeout_fires ^^ length (pendingTimeouts s)) s"

definition expired_transition :: "countdown \<Rightarrow> js_error + countdown \<Rightarrow> bool" where
  \<comment> \<open>What a tick entering Expired does to the page and the timer.\<close>
  "expired_transition s r \<longleftrightarrow>
     (case r of
        Inl e \<Rightarrow> False
      | Inr s' \<Rightarrow>
          headStyles s' = headStyles s @ [ExpiredBounceStyle]
          \<and> map_option innerHTML (container s') = Some ExpiredMessage
          \<and> activeIntervals s' = activeIntervals (clearInterval (interval s) s))"

definition text_differs :: "timeUnits \<Rightarrow> countdown \<Rightarrow> unit_key \<Rightarrow> bool" where
  \<comment> \<open>The two tests of \<open>updateElements\<close> together: the field's element exists and its
      text is not the newly rendered string.\<close>
  "text_differs tu s unit \<longleftrightarrow>
     (case elements s unit of
        None \<Rightarrow> False
      | Some el \<Rightarrow> textContent el \<noteq> padZero (unit_value tu unit))"

definition pulse :: "element \<Rightarrow> element" where
  \<comment> \<open>The two style writes at the start of \<open>animateNumberChange\<close>.\<close>
  "pulse el = el\<lparr>transform := Lit ''scale(1.1)'', color := Lit ''#f5576c''\<rparr>"

definition urgent_mode :: "countdown \<Rightarrow> bool" where
  \<comment> \<open>The container carries the class \<open>urgent\<close>.\<close>
  "urgent_mode s \<longleftrightarrow>
     (case container s of None \<Rightarrow> False | Some c \<Rightarrow> ''urgent'' \<in> set (classList c))"

text \<open>A small page to run the definitions on.\<close>

definition plain_element :: "string \<Rightarrow> element" where
  "plain_element txt =
     \<lparr> textContent = txt, innerHTML = PageMarkup, classList = [],
       opacity = Unset, transform = Unset, transition = Unset, transitionDelay = Unset,
       color = Unset, background = Unset, backdropFilter = Unset \<rparr>"

definition example_page :: countdown where
  \<comment> \<open>All five elements present, no timer running, nothing injected yet.\<close>
  "example_page =
     \<lparr> endDate = 0,
       elements = (\<lambda>unit. Some (plain_element ''00'')),
       container = Some (plain_element []),
       interval = None, activeIntervals = [], nextHandle = 1,
       pendingTimeouts = [], headStyles = [] \<rparr>"

definition example_running :: countdown where
  \<comment> \<open>A timer with deadline 5000 whose interval has handle 1.\<close>
  "example_running =
     example_page\<lparr> endDate := 5000, interval := Some 1, activeIntervals := [1],
       nextHandle := 2, headStyles := [UrgentPulseStyle] \<rparr>"

definition example_expired :: countdown where
  \<comment> \<open>\<open>example_running\<close> after the tick at clock reading 5001.\<close>
  "example_expired =
     example_running\<lparr> activeIntervals := [],
       container := Some ((plain_element [])\<lparr>innerHTML := ExpiredMessage\<rparr>),
       headStyles := [UrgentPulseStyle, ExpiredBounceStyle] \<rparr>"

section \<open>AnimationManager: reveal on intersection\<close>

text \<open>
  The reveal targets are the elements matched by \<open>querySelectorAll\<close>, held in a store
  indexed by their address. \<open>observed\<close> is the set of targets registered with the
  \<open>IntersectionObserver\<close>. The browser calls the observer's callback with a batch of
  entries; the model lets a batch hold any entries, also for targets that are no longer
  observed and several for one target. A scroll position reaches these elements only
  through the entries the browser builds from it.
\<close>

record reveal_state =
  store :: "nat \<Rightarrow> element"
  observed :: "nat list"

record entry =
  target :: nat
  isIntersecting :: bool

definition animationDuration :: int where
  "animationDuration = 600"

definition observe :: "nat \<Rightarrow> reveal_state \<Rightarrow> reveal_state" where
  "observe el st =
     (if el \<in> set (observed st) then st else st\<lparr>observed := observed st @ [el]\<rparr>)"

definition unobserve :: "nat \<Rightarrow> reveal_state \<Rightarrow> reveal_state" where
  "unobserve el st = st\<lparr>observed := removeAll el (observed st)\<rparr>"

definition animateElement :: "nat \<Rightarrow> reveal_state \<Rightarrow> reveal_state" where
  "animateElement el st =
     st\<lparr>store := (store st)(el :=
          (store st el)\<lparr>opacity := Lit ''1'', transform := Lit ''translateY(0)''\<rparr>)\<rparr>"

definition prepare_element :: "reveal_state \<Rightarrow> nat \<times> nat \<Rightarrow> reveal_state" where
  \<comment> \<open>The body of \<open>animatedElements.forEach((el, index) => ...)\<close>.\<close>
  "prepare_element st p =
     (case p of (index, el) \<Rightarrow>
        observe el
          (st\<lparr>store := (store st)(el :=
               (store st el)\<lparr>
                  opacity := Lit ''0'',
                  transform := Lit ''translateY(30px)'',
                  transition := Lit (''opacity '' @ String_js animationDuration
                     @ ''ms ease-out, transform '' @ String_js animationDuration
                     @ ''ms ease-out''),
                  transitionDelay := Lit (String_js (int index * 100) @ ''ms'')\<rparr>)\<rparr>))"

definition setupIntersectionObserver :: "nat list \<Rightarrow> reveal_state \<Rightarrow> reveal_state" where
  "setupIntersectionObserver animatedElements st =
     foldl prepare_element st (enumerate 0 animatedElements)"

definition handle_entry :: "reveal_state \<Rightarrow> entry \<Rightarrow> reveal_state" where
  \<comment> \<open>The body of \<open>entries.forEach(entry => ...)\<close> in the observer's callback.\<close>
  "handle_entry st e =
     (if isIntersecting e then unobserve (target e) (animateElement (target e) st) else st)"

definition intersection_callback :: "entry list \<Rightarrow> reveal_state \<Rightarrow> reveal_state" where
  "intersection_callback entries st = foldl handle_entry st entries"

definition deliver :: "entry list list \<Rightarrow> reveal_state \<Rightarrow> reveal_state" where
  \<comment> \<open>The callback runs once for each batch, in order.\<close>
  "deliver batches st = foldl (\<lambda>st es. intersection_callback es st) st batches"

definition hidden :: "element \<Rightarrow> bool" where
  "hidden el \<longleftrightarrow> opacity el = Lit ''0'' \<and> transform el = Lit ''translateY(30px)''"

definition revealed :: "element \<Rightarrow> bool" where
  "revealed el \<longleftrightarrow> opacity el = Lit ''1'' \<and> transform el = Lit ''translateY(0)''"

section \<open>The throttled scroll handler\<close>

text \<open>
  \<open>utils.throttle\<close> returns a closure over \<open>inThrottle\<close>. \<open>throttle_call\<close> is one call of
  that closure on a world \<open>w\<close> that \<open>func\<close> acts on; \<open>throttle_reset\<close> is the callback of
  its \<open>setTimeout\<close>, and \<open>resetTimeouts\<close> counts the ones waiting. A throttle interval
  lasts from a call that runs \<open>func\<close> to the next \<open>throttle_reset\<close>.
\<close>

record throttle_state =
  inThrottle :: bool
  resetTimeouts :: nat

definition throttle_call ::
  "('w \<Rightarrow> 'w) \<Rightarrow> throttle_state \<times> 'w \<Rightarrow> throttle_state \<times> 'w" where
  "throttle_call func st =
     (case st of (th, w) \<Rightarrow>
        if \<not> inThrottle th
        then (th\<lparr>inThrottle := True, resetTimeouts := Suc (resetTimeouts th)\<rparr>, func w)
        else (th, w))"

definition throttle_reset :: "throttle_state \<Rightarrow> throttle_state" where
  "throttle_reset th = th\<lparr>inThrottle := False, resetTimeouts := resetTimeouts th - 1\<rparr>"

text \<open>
  The page as the scroll handler sees it. \<open>window.scrollY\<close> and the numbers derived from it
  are kept as rationals (the source computes their nearest doubles). The three selectors
  name different classes, so the navigation bar, the indicator and the floating shapes are
  different elements.
\<close>

record scroll_page =
  scrollY :: rat
  navbar :: "element option"
  scrollIndicator :: "element option"
  floatingShapes :: "element list"

definition parallaxSpeed :: rat where
  "parallaxSpeed = 1 / 2"

definition updateParallax :: "rat \<Rightarrow> scroll_page \<Rightarrow> scroll_page" where
  "updateParallax y p =
     p\<lparr>floatingShapes :=
          map (\<lambda>(index, shape).
                 let speed = (of_nat index + 1) * parallaxSpeed;
                     yPos = y * speed
                 in shape\<lparr>transform := TranslateY_Rotate yPos (yPos * (1 / 10))\<rparr>)
              (enumerate 0 (floatingShapes p))\<rparr>"

definition handleScroll :: "scroll_page \<Rightarrow> scroll_page" where
  \<comment> \<open>The function passed to \<open>utils.throttle\<close> in \<open>setupScrollAnimations\<close>.\<close>
  "handleScroll p =
     (let y = scrollY p;
          p1 = p\<lparr>navbar :=
                 map_option
                   (\<lambda>n. n\<lparr>background := Rgba 255 255 255 (min (y / 100) (95 / 100)),
                          backdropFilter := (if y > 50 then Lit ''blur(20px)'' else Lit ''blur(10px)'')\<rparr>)
                   (navbar p)\<rparr>;
          p2 = p1\<lparr>scrollIndicator :=
                 map_option
                   (\<lambda>i. i\<lparr>opacity := (if y > 100 then Lit ''0'' else Lit ''0.7'')\<rparr>)
                   (scrollIndicator p1)\<rparr>
      in updateParallax y p2)"

definition recorded ::
  "(scroll_page \<Rightarrow> scroll_page) \<Rightarrow> scroll_page \<times> rat list \<Rightarrow> scroll_page \<times> rat list" where
  \<comment> \<open>A probe around the handler: it notes the offset each execution of the body reads.\<close>
  "recorded func w = (case w of (p, reads) \<Rightarrow> (func p, reads @ [scrollY p]))"

definition scroll_event ::
  "rat \<Rightarrow> throttle_state \<times> scroll_page \<times> rat list \<Rightarrow> throttle_state \<times> scroll_page \<times> rat list" where
  \<comment> \<open>The page scrolls to \<open>y\<close> and the listener registered for \<open>scroll\<close> is called.\<close>
  "scroll_event y st =
     (case st of (th, p, reads) \<Rightarrow>
        throttle_call (recorded handleScroll) (th, (p\<lparr>scrollY := y\<rparr>, reads)))"

definition run_scrolls ::
  "rat list \<Rightarrow> throttle_state \<times> scroll_page \<times> rat list \<Rightarrow> throttle_state \<times> scroll_page \<times> rat list" where
  \<comment> \<open>Scroll events with no \<open>throttle_reset\<close> between them.\<close>
  "run_scrolls ys st = foldl (\<lambda>st y. scroll_event y st) st ys"

text \<open>Small pages for the two parts of \<open>AnimationManager\<close>.\<close>

definition example_reveal :: reveal_state where
  \<comment> \<open>Three reveal targets, at addresses 3, 5 and 7, after the setup.\<close>
  "example_reveal =
     setupIntersectionObserver [3, 5, 7] \<lparr> store = (\<lambda>a. plain_element []), observed = [] \<rparr>"

definition example_scroll_page :: scroll_page where
  "example_scroll_page =
     \<lparr> scrollY = 0, navbar = Some (plain_element []),
       scrollIndicator = Some (plain_element []),
       floatingShapes = [plain_element [], plain_element []] \<rparr>"

definition fresh_throttle :: throttle_state where
  \<comment> \<open>The closure as \<open>utils.throttle\<close> returns it: \<open>inThrottle\<close> is undefined, so falsy.\<close>
  "fresh_throttle = \<lparr> inThrottle = False, resetTimeouts = 0 \<rparr>"

section \<open>Arithmetic of the time units\<close>

lemma mod_chain:
  fixes ms :: int
  assumes "b dvd a"
  shows "ms mod a = (ms mod a div b) * b + ms mod b"
proof -
  have "ms mod a = (ms mod a div b) * b + (ms mod a) mod b"
    by simp
  also have "(ms mod a) mod b = ms mod b"
    using assms by (simp add: mod_mod_cancel)
  finally show ?thesis .
qed

lemma units_sum:
  fixes ms :: int
  shows "(ms div 86400000) * 86400000 + (ms mod 86400000 div 3600000) * 3600000
       + (ms mod 3600000 div 60000) * 60000 + (ms mod 60000 div 1000) * 1000
       = ms - ms mod 1000"
proof -
  define d where "d = (ms div 86400000) * 86400000"
  define h where "h = (ms mod 86400000 div 3600000) * 3600000"
  define m where "m = (ms mod 3600000 div 60000) * 60000"
  define s where "s = (ms mod 60000 div 1000) * 1000"
  have e1: "ms = d + ms mod 86400000"
    unfolding d_def by simp
  have e2: "ms mod 86400000 = h + ms mod 3600000"
    unfolding h_def by (rule mod_chain) simp
  have e3: "ms mod 3600000 = m + ms mod 60000"
    unfolding m_def by (rule mod_chain) simp
  have e4: "ms mod 60000 = s + ms mod 1000"
    unfolding s_def by (rule mod_chain) simp
  have "d + h + m + s = ms - ms mod 1000"
    using e1 e2 e3 e4 by linarith
  then show ?thesis
    unfolding d_def h_def m_def s_def .
qed

lemma div_range:
  fixes x :: int
  assumes "0 \<le> x" "x < b * c" "0 < c"
  shows "0 \<le> x div c \<and> x div c < b"
proof
  show "0 \<le> x div c"
    using assms by (simp add: pos_imp_zdiv_nonneg_iff)
  have "x = x div c * c + x mod c"
    by simp
  moreover have "0 \<le> x mod c"
    using assms(3) by simp
  ultimately have "x div c * c \<le> x"
    by linarith
  then have "x div c * c < b * c"
    using assms(2) by linarith
  then show "x div c < b"
    using assms(3) by simp
qed

lemma calculateTimeUnits_nonneg:
  assumes "0 \<le> ms"
  shows "days (calculateTimeUnits ms) = ms div 86400000"
    and "hours (calculateTimeUnits ms) = ms mod 86400000 div 3600000"
    and "minutes (calculateTimeUnits ms) = ms mod 3600000 div 60000"
    and "seconds (calculateTimeUnits ms) = ms mod 60000 div 1000"
  using assms by (simp_all add: calculateTimeUnits_def js_rem_def floor_div_def)

lemma days_nonneg: "0 \<le> ms \<Longrightarrow> 0 \<le> days (calculateTimeUnits ms)"
  by (simp add: calculateTimeUnits_nonneg pos_imp_zdiv_nonneg_iff)

lemma hours_range:
  "0 \<le> ms \<Longrightarrow> 0 \<le> hours (calculateTimeUnits ms) \<and> hours (calculateTimeUnits ms) < 24"
  unfolding calculateTimeUnits_nonneg by (rule div_range) simp_all

lemma minutes_range:
  "0 \<le> ms \<Longrightarrow> 0 \<le> minutes (calculateTimeUnits ms) \<and> minutes (calculateTimeUnits ms) < 60"
  unfolding calculateTimeUnits_nonneg by (rule div_range) simp_all

lemma seconds_range:
  "0 \<le> ms \<Longrightarrow> 0 \<le> seconds (calculateTimeUnits ms) \<and> seconds (calculateTimeUnits ms) < 60"
  unfolding calculateTimeUnits_nonneg by (rule div_range) simp_all

lemma floor_quotient: "0 < b \<Longrightarrow> \<lfloor>real_of_int a / real_of_int b\<rfloor> = a div b"
  by (rule floor_divide_of_int_eq)

lemma digits_one: "n < 10 \<Longrightarrow> length (digits n) = 1"
  by (simp add: digits.simps)

lemma digits_two: "10 \<le> n \<Longrightarrow> n < 100 \<Longrightarrow> length (digits n) = 2"
  by (subst digits.simps) (simp add: digits_one)

lemma padZero_two_chars:
  assumes "0 \<le> n" and "n < 100"
  shows "length (padZero n) = 2"
proof (cases "nat n < 10")
  case True
  then show ?thesis
    using assms by (simp add: padZero_def padStart_def String_js_def digits_one)
next
  case False
  then have "length (digits (nat n)) = 2"
    using assms by (intro digits_two) auto
  then show ?thesis
    using assms by (simp add: padZero_def padStart_def String_js_def)
qed

lemma padZero_0: "padZero 0 = ''00''"
  by (simp add: padZero_def padStart_def String_js_def digits.simps)

text \<open>
  Claim C1. For every millisecond delta \<open>ms \<ge> 0\<close>, \<open>calculateTimeUnits\<close> gives
  days = floor(ms / 86400000), hours = floor((ms mod 86400000) / 3600000),
  minutes = floor((ms mod 3600000) / 60000), seconds = floor((ms mod 60000) / 1000), and
  the four fields weighted by their lengths in milliseconds add up to a value that is at
  most \<open>ms\<close> and more than \<open>ms - 1000\<close>.
\<close>

theorem calculateTimeUnits_decomposition:
  assumes "0 \<le> ms"
  shows "days (calculateTimeUnits ms) = \<lfloor>real_of_int ms / 86400000\<rfloor>
       \<and> hours (calculateTimeUnits ms) = \<lfloor>real_of_int (ms mod 86400000) / 3600000\<rfloor>
       \<and> minutes (calculateTimeUnits ms) = \<lfloor>real_of_int (ms mod 3600000) / 60000\<rfloor>
       \<and> seconds (calculateTimeUnits ms) = \<lfloor>real_of_int (ms mod 60000) / 1000\<rfloor>
       \<and> days (calculateTimeUnits ms) * 86400000 + hours (calculateTimeUnits ms) * 3600000
           + minutes (calculateTimeUnits ms) * 60000 + seconds (calculateTimeUnits ms) * 1000
           \<le> ms
       \<and> ms < days (calculateTimeUnits ms) * 86400000 + hours (calculateTimeUnits ms) * 3600000
           + minutes (calculateTimeUnits ms) * 60000 + seconds (calculateTimeUnits ms) * 1000
           + 1000"
proof -
  have d: "\<lfloor>real_of_int ms / 86400000\<rfloor> = ms div 86400000"
    using floor_quotient [of 86400000 ms] by simp
  have h: "\<lfloor>real_of_int (ms mod 86400000) / 3600000\<rfloor> = ms mod 86400000 div 3600000"
    using floor_quotient [of 3600000 "ms mod 86400000"] by simp
  have m: "\<lfloor>real_of_int (ms mod 3600000) / 60000\<rfloor> = ms mod 3600000 div 60000"
    using floor_quotient [of 60000 "ms mod 3600000"] by simp
  have s: "\<lfloor>real_of_int (ms mod 60000) / 1000\<rfloor> = ms mod 60000 div 1000"
    using floor_quotient [of 1000 "ms mod 60000"] by simp
  have r: "0 \<le> ms mod 1000" "ms mod 1000 < 1000"
    by simp_all
  have total: "days (calculateTimeUnits ms) * 86400000 + hours (calculateTimeUnits ms) * 3600000
           + minutes (calculateTimeUnits ms) * 60000 + seconds (calculateTimeUnits ms) * 1000
           = ms - ms mod 1000"
    unfolding calculateTimeUnits_nonneg [OF assms] by (rule units_sum)
  show ?thesis
    unfolding total unfolding calculateTimeUnits_nonneg [OF assms] d h m s
    using r by simp
qed

theorem calculateTimeUnits_decomposition_witness:
  "calculateTimeUnits 90061001 = \<lparr>days = 1, hours = 1, minutes = 1, seconds = 1\<rparr>
   \<and> (1 * 86400000 + 1 * 3600000 + 1 * 60000 + 1 * 1000 :: int) \<le> 90061001
   \<and> (90061001 :: int) < 1 * 86400000 + 1 * 3600000 + 1 * 60000 + 1 * 1000 + 1000"
  using calculateTimeUnits_decomposition [of 90061001]
  by (simp add: calculateTimeUnits_def js_rem_def floor_div_def)

text \<open>
  Claim C9. For every millisecond delta \<open>ms \<ge> 0\<close> the computed units satisfy
  0 \<le> hours \<le> 23, 0 \<le> minutes \<le> 59, 0 \<le> seconds \<le> 59 and days \<ge> 0, so \<open>padZero\<close>
  renders hours, minutes and seconds as exactly two characters.
\<close>

theorem calculateTimeUnits_bounds:
  assumes "0 \<le> ms"
  shows "0 \<le> days (calculateTimeUnits ms)
       \<and> 0 \<le> hours (calculateTimeUnits ms) \<and> hours (calculateTimeUnits ms) \<le> 23
       \<and> 0 \<le> minutes (calculateTimeUnits ms) \<and> minutes (calculateTimeUnits ms) \<le> 59
       \<and> 0 \<le> seconds (calculateTimeUnits ms) \<and> seconds (calculateTimeUnits ms) \<le> 59
       \<and> length (padZero (hours (calculateTimeUnits ms))) = 2
       \<and> length (padZero (minutes (calculateTimeUnits ms))) = 2
       \<and> length (padZero (seconds (calculateTimeUnits ms))) = 2"
proof -
  note h = hours_range [OF assms]
  note m = minutes_range [OF assms]
  note s = seconds_range [OF assms]
  have "length (padZero (hours (calculateTimeUnits ms))) = 2"
    using h by (intro padZero_two_chars) auto
  moreover have "length (padZero (minutes (calculateTimeUnits ms))) = 2"
    using m by (intro padZero_two_chars) auto
  moreover have "length (padZero (seconds (calculateTimeUnits ms))) = 2"
    using s by (intro padZero_two_chars) auto
  ultimately show ?thesis
    using days_nonneg [OF assms] h m s by simp
qed

theorem calculateTimeUnits_bounds_witness:
  "calculateTimeUnits 86399999 = \<lparr>days = 0, hours = 23, minutes = 59, seconds = 59\<rparr>
   \<and> padZero 23 = ''23'' \<and> padZero 59 = ''59''
   \<and> length (padZero (hours (calculateTimeUnits 86399999))) = 2"
  using calculateTimeUnits_bounds [of 86399999]
  by (simp add: calculateTimeUnits_def js_rem_def floor_div_def padZero_def padStart_def
      String_js_def digits.simps)

text \<open>
  Claim C10. For every millisecond delta \<open>ms \<ge> 0\<close>, the test of \<open>addPulseEffect\<close>
  (days = 0 and hours < 24) on the computed units has the same truth value as the test
  days = 0 alone: the conjunct hours < 24 always holds.
\<close>

theorem urgent_condition_is_days_zero:
  assumes "0 \<le> ms"
  shows "urgent_condition (calculateTimeUnits ms) = days_zero_condition (calculateTimeUnits ms)
       \<and> hours (calculateTimeUnits ms) < 24"
  using hours_range [OF assms] by (simp add: urgent_condition_def days_zero_condition_def)

theorem urgent_condition_is_days_zero_witness:
  "urgent_condition (calculateTimeUnits 3600000) \<and> days_zero_condition (calculateTimeUnits 3600000)
   \<and> \<not> urgent_condition (calculateTimeUnits 86400000)
   \<and> \<not> days_zero_condition (calculateTimeUnits 86400000)"
  using urgent_condition_is_days_zero [of 3600000] urgent_condition_is_days_zero [of 86400000]
  by (simp add: urgent_condition_def days_zero_condition_def calculateTimeUnits_def js_rem_def
      floor_div_def)


section \<open>The countdown's display update\<close>

lemma update_unit_frame [simp]:
  "container (update_unit tu s u) = container s"
  "headStyles (update_unit tu s u) = headStyles s"
  "activeIntervals (update_unit tu s u) = activeIntervals s"
  "interval (update_unit tu s u) = interval s"
  "endDate (update_unit tu s u) = endDate s"
  by (simp_all add: update_unit_def animateNumberChange_def Let_def split: option.splits)

lemma update_unit_elements:
  "elements (update_unit tu s u) u' =
     (if u' = u \<and> text_differs tu s u then map_option pulse (elements s u) else elements s u')"
  by (simp add: update_unit_def animateNumberChange_def text_differs_def pulse_def Let_def
      split: option.splits)

lemma update_unit_pending:
  "pendingTimeouts (update_unit tu s u) =
     pendingTimeouts s @ (if text_differs tu s u then [(u, padZero (unit_value tu u))] else [])"
  by (simp add: update_unit_def animateNumberChange_def text_differs_def Let_def
      split: option.splits)

lemma text_differs_update_unit [simp]:
  "text_differs tu (update_unit tu' s u) u' = text_differs tu s u'"
  by (cases "elements s u")
     (simp_all add: text_differs_def update_unit_elements pulse_def)

lemma text_differs_update_unit_fun [simp]:
  "text_differs tu (update_unit tu' s u) = text_differs tu s"
  by (rule ext) simp

lemma foldl_update_unit_frame [simp]:
  "container (foldl (update_unit tu) s ks) = container s"
  "headStyles (foldl (update_unit tu) s ks) = headStyles s"
  "activeIntervals (foldl (update_unit tu) s ks) = activeIntervals s"
  "interval (foldl (update_unit tu) s ks) = interval s"
  "endDate (foldl (update_unit tu) s ks) = endDate s"
  by (induction ks arbitrary: s) simp_all

lemma text_differs_foldl [simp]:
  "text_differs tu (foldl (update_unit tu') s ks) u = text_differs tu s u"
  by (induction ks arbitrary: s) simp_all

lemma foldl_update_unit_pending:
  "pendingTimeouts (foldl (update_unit tu) s ks) =
     pendingTimeouts s @ map (\<lambda>u. (u, padZero (unit_value tu u))) (filter (text_differs tu s) ks)"
  by (induction ks arbitrary: s) (simp_all add: update_unit_pending)

lemma pulse_pulse [simp]: "pulse (pulse el) = pulse el"
  by (simp add: pulse_def)

lemma foldl_update_unit_elements:
  "elements (foldl (update_unit tu) s ks) u =
     (if u \<in> set ks \<and> text_differs tu s u then map_option pulse (elements s u) else elements s u)"
proof (induction ks arbitrary: s)
  case Nil
  then show ?case by simp
next
  case (Cons k ks)
  show ?case
    by (cases "elements s u")
       (auto simp add: Cons.IH update_unit_elements option.map_comp comp_def)
qed

lemma updateElements_frame [simp]:
  "container (updateElements tu s) = container s"
  "headStyles (updateElements tu s) = headStyles s"
  "activeIntervals (updateElements tu s) = activeIntervals s"
  "interval (updateElements tu s) = interval s"
  "endDate (updateElements tu s) = endDate s"
  by (simp_all add: updateElements_def)

lemma set_unit_keys [simp]: "u \<in> set unit_keys"
  by (cases u) (simp_all add: unit_keys_def)

lemma updateElements_elements:
  "elements (updateElements tu s) u =
     (if text_differs tu s u then map_option pulse (elements s u) else elements s u)"
  by (simp add: updateElements_def foldl_update_unit_elements)

lemma updateElements_pending:
  "pendingTimeouts (updateElements tu s) =
     pendingTimeouts s
     @ map (\<lambda>u. (u, padZero (unit_value tu u))) (filter (text_differs tu s) unit_keys)"
  by (simp add: updateElements_def foldl_update_unit_pending)

lemma addPulseEffect_present:
  assumes "container s = Some c"
  shows "addPulseEffect tu s =
     Inr (if urgent_condition tu then s\<lparr>container := Some (classList_add ''urgent'' c)\<rparr> else s)"
  using assms by (simp add: addPulseEffect_def)

lemma handleExpiration_present:
  assumes "container s = Some c"
  shows "handleExpiration s =
     Inr ((clearInterval (interval s) s)
            \<lparr> container := Some (c\<lparr>innerHTML := ExpiredMessage\<rparr>),
              headStyles := headStyles s @ [ExpiredBounceStyle] \<rparr>)"
  using assms by (simp add: handleExpiration_def clearInterval_def Let_def split: option.splits)

lemma updateDisplay_running:
  assumes "container s = Some c" and "0 \<le> endDate s - now"
  shows "updateDisplay now s =
     Inr (let tu = calculateTimeUnits (endDate s - now);
              s1 = updateElements tu s
          in if urgent_condition tu then s1\<lparr>container := Some (classList_add ''urgent'' c)\<rparr>
             else s1)"
  using assms by (simp add: updateDisplay_def Let_def addPulseEffect_present)

lemma updateDisplay_expiring:
  assumes "container s = Some c" and "endDate s - now < 0"
  shows "updateDisplay now s =
     Inr ((clearInterval (interval s) s)
            \<lparr> container := Some (c\<lparr>innerHTML := ExpiredMessage\<rparr>),
              headStyles := headStyles s @ [ExpiredBounceStyle] \<rparr>)"
  using assms by (simp add: updateDisplay_def Let_def handleExpiration_present)

lemma calculateTimeUnits_0 [simp]: "unit_value (calculateTimeUnits 0) u = 0"
  by (cases u) (simp_all add: calculateTimeUnits_def js_rem_def floor_div_def)

lemma urgent_condition_0 [simp]: "urgent_condition (calculateTimeUnits 0)"
  by (simp add: urgent_condition_def calculateTimeUnits_def js_rem_def floor_div_def)

lemma classList_add_frame [simp]:
  "innerHTML (classList_add tok el) = innerHTML el"
  "textContent (classList_add tok el) = textContent el"
  by (simp_all add: classList_add_def)

lemma classList_add_member [simp]: "tok \<in> set (classList (classList_add tok el))"
  by (simp add: classList_add_def)

lemma clearInterval_frame [simp]:
  "container (clearInterval h s) = container s"
  "headStyles (clearInterval h s) = headStyles s"
  "interval (clearInterval h s) = interval s"
  "elements (clearInterval h s) = elements s"
  "pendingTimeouts (clearInterval h s) = pendingTimeouts s"
  "endDate (clearInterval h s) = endDate s"
  by (simp_all add: clearInterval_def split: option.splits)

lemma timeout_fires_frame [simp]:
  "container (timeout_fires s) = container s"
  "headStyles (timeout_fires s) = headStyles s"
  "activeIntervals (timeout_fires s) = activeIntervals s"
  "interval (timeout_fires s) = interval s"
  by (simp_all add: timeout_fires_def split: list.splits prod.splits)

lemma timeout_fires_settles:
  assumes all_c: "\<forall>p \<in> set (pendingTimeouts s). snd p = c"
    and covered: "\<forall>u el. elements s u = Some el \<longrightarrow>
                    textContent el = c \<or> u \<in> fst ` set (pendingTimeouts s)"
  shows "\<forall>u el. elements ((timeout_fires ^^ length (pendingTimeouts s)) s) u = Some el
           \<longrightarrow> textContent el = c"
  using assms
proof (induction "pendingTimeouts s" arbitrary: s)
  case Nil
  then show ?case by auto
next
  case (Cons p rest)
  obtain u0 v0 where p: "p = (u0, v0)"
    by (cases p)
  have pend: "pendingTimeouts s = (u0, v0) # rest"
    using Cons.hyps(2) p by simp
  have v0: "v0 = c"
    using Cons.prems(1) pend by simp
  let ?s1 = "timeout_fires s"
  have rest: "rest = pendingTimeouts ?s1"
    using pend by (simp add: timeout_fires_def)
  have a1: "\<forall>p \<in> set (pendingTimeouts ?s1). snd p = c"
    using Cons.prems(1) pend rest by simp
  have a2: "\<forall>u el. elements ?s1 u = Some el \<longrightarrow>
              textContent el = c \<or> u \<in> fst ` set (pendingTimeouts ?s1)"
  proof (intro allI impI)
    fix u el
    assume el: "elements ?s1 u = Some el"
    show "textContent el = c \<or> u \<in> fst ` set (pendingTimeouts ?s1)"
    proof (cases "u = u0")
      case True
      then show ?thesis
        using el pend v0 by (auto simp add: timeout_fires_def)
    next
      case False
      then have "elements s u = Some el"
        using el pend by (simp add: timeout_fires_def)
      then have "textContent el = c \<or> u \<in> fst ` set (pendingTimeouts s)"
        using Cons.prems(2) by blast
      then show ?thesis
        using False pend rest by auto
    qed
  qed
  have "\<forall>u el. elements ((timeout_fires ^^ length (pendingTimeouts ?s1)) ?s1) u = Some el
           \<longrightarrow> textContent el = c"
    using Cons.hyps(1) [OF rest a1 a2] .
  moreover have "(timeout_fires ^^ length (pendingTimeouts s)) s
      = (timeout_fires ^^ length (pendingTimeouts ?s1)) ?s1"
    using pend rest by (simp add: funpow_swap1)
  ultimately show ?case by simp
qed

text \<open>
  Claim C8. On every countdown tick, a field's text is replaced only if its newly
  rendered string differs from the text it shows: the tick itself rewrites no text, every
  replacement it schedules is for a field whose rendered string differs from its text, and
  a field whose rendered string equals its text is left as it was.
\<close>

theorem tick_rewrites_only_changed_fields:
  assumes "container s \<noteq> None"
  shows "\<exists>s'. updateDisplay now s = Inr s'
     \<and> (\<forall>u. map_option textContent (elements s' u) = map_option textContent (elements s u))
     \<and> (\<forall>u el. elements s u = Some el
            \<and> textContent el = padZero (unit_value (calculateTimeUnits (endDate s - now)) u)
          \<longrightarrow> elements s' u = Some el)
     \<and> (\<exists>new. pendingTimeouts s' = pendingTimeouts s @ new
          \<and> (\<forall>p \<in> set new. \<exists>el. elements s (fst p) = Some el
                \<and> snd p = padZero (unit_value (calculateTimeUnits (endDate s - now)) (fst p))
                \<and> textContent el \<noteq> snd p))"
proof -
  obtain c where c: "container s = Some c"
    using assms by auto
  show ?thesis
  proof (cases "endDate s - now < 0")
    case True
    show ?thesis
      unfolding updateDisplay_expiring [OF c True] by simp
  next
    case False
    define tu where "tu = calculateTimeUnits (endDate s - now)"
    define s' where "s' = (let s1 = updateElements tu s
          in if urgent_condition tu then s1\<lparr>container := Some (classList_add ''urgent'' c)\<rparr>
             else s1)"
    have run: "updateDisplay now s = Inr s'"
      using updateDisplay_running [OF c, of now] False by (simp add: s'_def tu_def Let_def)
    have els: "elements s' = elements (updateElements tu s)"
      and pend: "pendingTimeouts s' = pendingTimeouts (updateElements tu s)"
      by (simp_all add: s'_def Let_def)
    have texts: "\<forall>u. map_option textContent (elements s' u) = map_option textContent (elements s u)"
      by (simp add: els updateElements_elements option.map_comp comp_def pulse_def)
    have same: "\<forall>u el. elements s u = Some el \<and> textContent el = padZero (unit_value tu u)
          \<longrightarrow> elements s' u = Some el"
      by (simp add: els updateElements_elements text_differs_def)
    have new: "\<forall>p \<in> set (map (\<lambda>u. (u, padZero (unit_value tu u)))
                    (filter (text_differs tu s) unit_keys)).
          \<exists>el. elements s (fst p) = Some el \<and> snd p = padZero (unit_value tu (fst p))
                \<and> textContent el \<noteq> snd p"
      by (auto simp add: text_differs_def split: option.splits)
    have scheduled: "\<exists>new. pendingTimeouts s' = pendingTimeouts s @ new
          \<and> (\<forall>p \<in> set new. \<exists>el. elements s (fst p) = Some el
                \<and> snd p = padZero (unit_value tu (fst p)) \<and> textContent el \<noteq> snd p)"
      using new
      by (intro exI [of _ "map (\<lambda>u. (u, padZero (unit_value tu u)))
                    (filter (text_differs tu s) unit_keys)"] conjI)
         (simp_all only: pend updateElements_pending)
    show ?thesis
      unfolding run tu_def [symmetric]
      using texts same scheduled by (intro exI [of _ s'] conjI) simp_all
  qed
qed

theorem tick_rewrites_only_changed_fields_witness:
  "container example_running \<noteq> None
   \<and> (\<exists>s'. updateDisplay 4000 example_running = Inr s'
        \<and> elements s' Minutes = Some (plain_element ''00'')
        \<and> pendingTimeouts s' = [(Seconds, ''01'')])"
proof -
  have c: "container example_running \<noteq> None"
    by (simp add: example_running_def example_page_def)
  have m: "padZero (unit_value (calculateTimeUnits (endDate example_running - 4000)) Minutes) = ''00''"
    by (simp add: example_running_def example_page_def calculateTimeUnits_def js_rem_def
        floor_div_def padZero_def padStart_def String_js_def digits.simps)
  have e: "elements example_running Minutes = Some (plain_element ''00'')"
    by (simp add: example_running_def example_page_def)
  have t: "textContent (plain_element ''00'') = ''00''"
    by (simp add: plain_element_def)
  obtain s' where run: "updateDisplay 4000 example_running = Inr s'"
    and same: "\<forall>u el. elements example_running u = Some el
            \<and> textContent el = padZero (unit_value (calculateTimeUnits (endDate example_running - 4000)) u)
          \<longrightarrow> elements s' u = Some el"
    using tick_rewrites_only_changed_fields [OF c, of 4000] by blast
  have "elements s' Minutes = Some (plain_element ''00'')"
    using same e m t by simp
  moreover have "pendingTimeouts s' = [(Seconds, ''01'')]"
    using run updateDisplay_running [of example_running _ 4000]
    by (simp add: example_running_def example_page_def calculateTimeUnits_def js_rem_def
        floor_div_def padZero_def padStart_def String_js_def digits.simps Let_def
        updateElements_pending text_differs_def unit_keys_def plain_element_def
        split: if_splits)
  ultimately show ?thesis
    using c run by simp
qed


text \<open>
  Claim C3. On every countdown tick, the transition to Expired happens if and only if
  the remainder (deadline minus current time) is negative. On a tick whose remainder is
  exactly 0 the timer is not cancelled and nothing of the expiry is rendered; each of the
  four fields renders as \<open>00\<close>, and once the pulse timeouts of that tick have run every
  field element on the page shows \<open>00\<close>.
\<close>

theorem expired_iff_negative_remainder:
  assumes "container s \<noteq> None"
  shows "(expired_transition s (updateDisplay now s) \<longleftrightarrow> endDate s - now < 0)
     \<and> (endDate s - now = 0 \<longrightarrow>
          (\<exists>s'. updateDisplay now s = Inr s'
             \<and> activeIntervals s' = activeIntervals s \<and> interval s' = interval s
             \<and> headStyles s' = headStyles s
             \<and> map_option innerHTML (container s') = map_option innerHTML (container s)
             \<and> (\<forall>u. padZero (unit_value (calculateTimeUnits (endDate s - now)) u) = ''00'')
             \<and> (pendingTimeouts s = [] \<longrightarrow>
                  (\<forall>u el. elements (flush_timeouts s') u = Some el \<longrightarrow> textContent el = ''00''))))"
proof -
  obtain c where c: "container s = Some c"
    using assms by auto
  have iff: "expired_transition s (updateDisplay now s) \<longleftrightarrow> endDate s - now < 0"
  proof (cases "endDate s - now < 0")
    case True
    then show ?thesis
      by (simp add: updateDisplay_expiring [OF c True] expired_transition_def)
  next
    case False
    then have "0 \<le> endDate s - now"
      by simp
    then show ?thesis
      using False by (simp add: updateDisplay_running [OF c] expired_transition_def Let_def)
  qed
  have zero: "endDate s - now = 0 \<longrightarrow>
          (\<exists>s'. updateDisplay now s = Inr s'
             \<and> activeIntervals s' = activeIntervals s \<and> interval s' = interval s
             \<and> headStyles s' = headStyles s
             \<and> map_option innerHTML (container s') = map_option innerHTML (container s)
             \<and> (\<forall>u. padZero (unit_value (calculateTimeUnits (endDate s - now)) u) = ''00'')
             \<and> (pendingTimeouts s = [] \<longrightarrow>
                  (\<forall>u el. elements (flush_timeouts s') u = Some el \<longrightarrow> textContent el = ''00'')))"
  proof
    assume z: "endDate s - now = 0"
    define tu where "tu = calculateTimeUnits 0"
    define s' where "s' = (updateElements tu s)\<lparr>container := Some (classList_add ''urgent'' c)\<rparr>"
    have run: "updateDisplay now s = Inr s'"
      using updateDisplay_running [OF c, of now] z by (simp add: s'_def tu_def Let_def)
    have rendered: "\<forall>u. padZero (unit_value tu u) = ''00''"
      by (simp add: tu_def padZero_0)
    have els: "elements s' u = (if text_differs tu s u then map_option pulse (elements s u)
                                else elements s u)" for u
      by (simp add: s'_def updateElements_elements)
    have pend: "pendingTimeouts s' = pendingTimeouts s
        @ map (\<lambda>u. (u, padZero (unit_value tu u))) (filter (text_differs tu s) unit_keys)"
      by (simp add: s'_def updateElements_pending)
    have settled: "\<forall>u el. elements (flush_timeouts s') u = Some el \<longrightarrow> textContent el = ''00''"
      if empty: "pendingTimeouts s = []"
      unfolding flush_timeouts_def
    proof (rule timeout_fires_settles)
      show "\<forall>p \<in> set (pendingTimeouts s'). snd p = ''00''"
        using rendered by (auto simp add: pend empty)
      show "\<forall>u el. elements s' u = Some el \<longrightarrow>
              textContent el = ''00'' \<or> u \<in> fst ` set (pendingTimeouts s')"
      proof (intro allI impI)
        fix u el
        assume el: "elements s' u = Some el"
        show "textContent el = ''00'' \<or> u \<in> fst ` set (pendingTimeouts s')"
        proof (cases "text_differs tu s u")
          case True
          then have "(u, padZero (unit_value tu u)) \<in> set (pendingTimeouts s')"
            by (simp add: pend)
          then have "fst (u, padZero (unit_value tu u)) \<in> fst ` set (pendingTimeouts s')"
            by (rule imageI)
          then show ?thesis by simp
        next
          case False
          then have "textContent el = ''00''"
            using el rendered by (simp add: els text_differs_def)
          then show ?thesis ..
        qed
      qed
    qed
    show "\<exists>s'. updateDisplay now s = Inr s'
             \<and> activeIntervals s' = activeIntervals s \<and> interval s' = interval s
             \<and> headStyles s' = headStyles s
             \<and> map_option innerHTML (container s') = map_option innerHTML (container s)
             \<and> (\<forall>u. padZero (unit_value (calculateTimeUnits (endDate s - now)) u) = ''00'')
             \<and> (pendingTimeouts s = [] \<longrightarrow>
                  (\<forall>u el. elements (flush_timeouts s') u = Some el \<longrightarrow> textContent el = ''00''))"
      unfolding z run
      using rendered settled
      by (intro exI [of _ s'] conjI) (simp_all add: s'_def c tu_def)
  qed
  show ?thesis
    using iff zero by (rule conjI)
qed

theorem expired_iff_negative_remainder_witness:
  "container example_running \<noteq> None
   \<and> \<not> expired_transition example_running (updateDisplay 5000 example_running)
   \<and> expired_transition example_running (updateDisplay 5001 example_running)
   \<and> updateDisplay 5001 example_running = Inr example_expired
   \<and> (\<exists>s'. updateDisplay 5000 example_running = Inr s' \<and> activeIntervals s' = [1]
         \<and> (\<forall>u el. elements (flush_timeouts s') u = Some el \<longrightarrow> textContent el = ''00''))"
proof -
  have c: "container example_running \<noteq> None"
    by (simp add: example_running_def example_page_def)
  have facts: "endDate example_running = 5000" "pendingTimeouts example_running = []"
    "activeIntervals example_running = [1]"
    by (simp_all add: example_running_def example_page_def)
  have e: "updateDisplay 5001 example_running = Inr example_expired"
    by (simp add: updateDisplay_def handleExpiration_def clearInterval_def Let_def
        example_expired_def example_running_def example_page_def)
  note at_deadline = expired_iff_negative_remainder [OF c, of 5000]
  note after_deadline = expired_iff_negative_remainder [OF c, of 5001]
  have running: "\<not> expired_transition example_running (updateDisplay 5000 example_running)"
    using at_deadline by (simp add: facts)
  have expiring: "expired_transition example_running (updateDisplay 5001 example_running)"
    using after_deadline by (simp add: facts)
  obtain s' where "updateDisplay 5000 example_running = Inr s'"
    and "activeIntervals s' = activeIntervals example_running"
    and "\<forall>u el. elements (flush_timeouts s') u = Some el \<longrightarrow> textContent el = ''00''"
    using at_deadline by (auto simp add: facts)
  then have shown: "\<exists>s'. updateDisplay 5000 example_running = Inr s' \<and> activeIntervals s' = [1]
         \<and> (\<forall>u el. elements (flush_timeouts s') u = Some el \<longrightarrow> textContent el = ''00'')"
    by (auto simp add: facts)
  show ?thesis
    using c running expiring e shown by simp
qed

text \<open>
  Claim C5. If the container element is absent when the \<open>CountdownTimer\<close> is
  constructed, the component does no work: no recurring timer is started, no display
  update occurs, nothing is injected, and no error is raised.
\<close>

theorem absent_container_no_work:
  assumes "container s = None"
  shows "\<exists>s'. CountdownTimer t0 now s = Inr s'
     \<and> interval s' = None
     \<and> activeIntervals s' = activeIntervals s
     \<and> nextHandle s' = nextHandle s
     \<and> pendingTimeouts s' = pendingTimeouts s
     \<and> elements s' = elements s
     \<and> container s' = None
     \<and> headStyles s' = headStyles s"
  using assms by (simp add: CountdownTimer_def init_def)

theorem absent_container_no_work_witness:
  "container (example_page\<lparr>container := None\<rparr>) = None
   \<and> CountdownTimer 1000 1001 (example_page\<lparr>container := None\<rparr>)
       = Inr (example_page\<lparr>container := None, endDate := 259201000\<rparr>)"
proof -
  have n: "container (example_page\<lparr>container := None\<rparr>) = None"
    by simp
  show ?thesis
    using absent_container_no_work [OF n, of 1000 1001]
    by (simp add: CountdownTimer_def init_def countdownDays_def example_page_def)
qed

lemma updateDisplay_keeps_urgent:
  assumes "container s \<noteq> None" and "urgent_mode s"
  shows "\<exists>s'. updateDisplay now s = Inr s' \<and> container s' \<noteq> None \<and> urgent_mode s'"
proof -
  obtain c where c: "container s = Some c"
    using assms(1) by auto
  have u: "''urgent'' \<in> set (classList c)"
    using assms(2) c by (simp add: urgent_mode_def)
  show ?thesis
  proof (cases "endDate s - now < 0")
    case True
    show ?thesis
      unfolding updateDisplay_expiring [OF c True]
      using u by (simp add: urgent_mode_def)
  next
    case False
    then have "0 \<le> endDate s - now"
      by simp
    then show ?thesis
      unfolding updateDisplay_running [OF c \<open>0 \<le> endDate s - now\<close>]
      using u c by (simp add: urgent_mode_def Let_def)
  qed
qed

lemma run_callback_keeps_urgent:
  assumes "container s \<noteq> None" and "urgent_mode s"
  shows "\<exists>s'. run_callback cb s = Inr s' \<and> container s' \<noteq> None \<and> urgent_mode s'"
proof (cases cb)
  case (IntervalCallback now)
  then show ?thesis
    using updateDisplay_keeps_urgent [OF assms] by simp
next
  case TimeoutCallback
  then show ?thesis
    using assms by (simp add: urgent_mode_def)
qed

lemma run_callbacks_keep_urgent:
  assumes "container s \<noteq> None" and "urgent_mode s"
  shows "\<exists>s'. run_callbacks cs s = Inr s' \<and> urgent_mode s'"
  using assms
proof (induction cs arbitrary: s)
  case Nil
  then show ?case by simp
next
  case (Cons cb cs)
  obtain s1 where s1: "run_callback cb s = Inr s1" "container s1 \<noteq> None" "urgent_mode s1"
    using run_callback_keeps_urgent [OF Cons.prems] by blast
  show ?case
    using Cons.IH [OF s1(2) s1(3)] s1(1) by simp
qed

text \<open>
  Claim C7. On a countdown tick with non-negative remainder whose computed days are 0
  and computed hours are below 24, the class \<open>urgent\<close> is put on the container; and once
  the container carries it, no later tick (and no pulse timeout) removes it.
\<close>

theorem urgent_mode_set_and_kept:
  assumes "container s \<noteq> None"
  shows "(0 \<le> endDate s - now
          \<and> days (calculateTimeUnits (endDate s - now)) = 0
          \<and> hours (calculateTimeUnits (endDate s - now)) < 24
        \<longrightarrow> (\<exists>s'. updateDisplay now s = Inr s' \<and> urgent_mode s'))
       \<and> (urgent_mode s \<longrightarrow> (\<exists>s'. run_callbacks cs s = Inr s' \<and> urgent_mode s'))"
proof -
  obtain c where c: "container s = Some c"
    using assms by auto
  have activated: "\<exists>s'. updateDisplay now s = Inr s' \<and> urgent_mode s'"
    if "0 \<le> endDate s - now"
      and "days (calculateTimeUnits (endDate s - now)) = 0"
      and "hours (calculateTimeUnits (endDate s - now)) < 24"
    unfolding updateDisplay_running [OF c that(1)]
    using that(2,3) by (simp add: Let_def urgent_condition_def urgent_mode_def)
  show ?thesis
    using activated run_callbacks_keep_urgent [OF assms] by blast
qed

theorem urgent_mode_set_and_kept_witness:
  "container example_running \<noteq> None
   \<and> days (calculateTimeUnits (endDate example_running - 4000)) = 0
   \<and> hours (calculateTimeUnits (endDate example_running - 4000)) < 24
   \<and> \<not> urgent_mode example_running
   \<and> (\<exists>s'. updateDisplay 4000 example_running = Inr s' \<and> urgent_mode s'
         \<and> (\<exists>s''. run_callbacks [TimeoutCallback, IntervalCallback 5000, IntervalCallback 6000] s'
                     = Inr s'' \<and> urgent_mode s''))"
proof -
  have c: "container example_running \<noteq> None"
    by (simp add: example_running_def example_page_def)
  have d: "endDate example_running = 5000"
    by (simp add: example_running_def example_page_def)
  have tu: "days (calculateTimeUnits 1000) = 0" "hours (calculateTimeUnits 1000) < 24"
    by (simp_all add: calculateTimeUnits_def js_rem_def floor_div_def)
  have off: "\<not> urgent_mode example_running"
    by (simp add: urgent_mode_def example_running_def example_page_def plain_element_def)
  obtain s' where s': "updateDisplay 4000 example_running = Inr s'" "urgent_mode s'"
    using urgent_mode_set_and_kept [OF c, of 4000] tu by (auto simp add: d)
  have c': "container s' \<noteq> None"
    using s'(2) by (auto simp add: urgent_mode_def split: option.splits)
  have "\<exists>s''. run_callbacks [TimeoutCallback, IntervalCallback 5000, IntervalCallback 6000] s'
                     = Inr s'' \<and> urgent_mode s''"
    using urgent_mode_set_and_kept [OF c', of _ "[TimeoutCallback, IntervalCallback 5000, IntervalCallback 6000]"] s'(2)
    by blast
  then show ?thesis
    using c tu off s' by (auto simp add: d)
qed

lemma interval_fires_cancelled:
  assumes "\<forall>i. interval s = Some i \<longrightarrow> i \<notin> set (activeIntervals s)"
  shows "interval_fires now s = Inr s"
  using assms by (simp add: interval_fires_def split: option.splits)

lemma run_interval_cancelled:
  assumes "\<forall>i. interval s = Some i \<longrightarrow> i \<notin> set (activeIntervals s)"
  shows "run_interval nows s = Inr s"
  by (induction nows) (simp_all add: interval_fires_cancelled [OF assms])

text \<open>
  Claim C4, as it holds. Running the Expired processing again after the timer has been
  cancelled raises no error and leaves the timer cancelled and the container's content the
  expiry message, but it is not guarded: each further run appends one more expiry style to
  the document head, and changes nothing else. Ticks of the cancelled timer do not reach
  the handler: however often the interval comes due after the expiry, the state stays as
  the one expiry render left it.
\<close>

theorem expiration_reentry:
  assumes "container s \<noteq> None"
  shows "\<exists>s1. handleExpiration s = Inr s1
     \<and> (\<forall>i. interval s1 = Some i \<longrightarrow> i \<notin> set (activeIntervals s1))
     \<and> map_option innerHTML (container s1) = Some ExpiredMessage
     \<and> headStyles s1 = headStyles s @ [ExpiredBounceStyle]
     \<and> handleExpiration s1 = Inr (s1\<lparr>headStyles := headStyles s1 @ [ExpiredBounceStyle]\<rparr>)
     \<and> run_interval nows s1 = Inr s1"
proof -
  obtain c where c: "container s = Some c"
    using assms by auto
  define s1 where "s1 = (clearInterval (interval s) s)
            \<lparr> container := Some (c\<lparr>innerHTML := ExpiredMessage\<rparr>),
              headStyles := headStyles s @ [ExpiredBounceStyle] \<rparr>"
  have first: "handleExpiration s = Inr s1"
    by (simp add: handleExpiration_present [OF c] s1_def)
  have cancelled: "\<forall>i. interval s1 = Some i \<longrightarrow> i \<notin> set (activeIntervals s1)"
    by (simp add: s1_def clearInterval_def split: option.splits)
  have c1: "container s1 = Some (c\<lparr>innerHTML := ExpiredMessage\<rparr>)"
    by (simp add: s1_def)
  have again: "clearInterval (interval s1) s1 = s1"
    using cancelled by (cases "interval s1") (simp_all add: clearInterval_def)
  have second: "handleExpiration s1 = Inr (s1\<lparr>headStyles := headStyles s1 @ [ExpiredBounceStyle]\<rparr>)"
    unfolding handleExpiration_present [OF c1] again
    by (simp add: s1_def)
  show ?thesis
    using first cancelled second run_interval_cancelled [OF cancelled, of nows]
    by (intro exI [of _ s1] conjI) (simp_all add: s1_def)
qed

theorem expiration_reentry_witness:
  "container example_running \<noteq> None
   \<and> handleExpiration example_running = Inr example_expired
   \<and> run_interval [6001, 7001, 8001, 9001, 10001] example_expired = Inr example_expired
   \<and> headStyles example_expired = [UrgentPulseStyle, ExpiredBounceStyle]"
proof -
  have c: "container example_running \<noteq> None"
    by (simp add: example_running_def example_page_def)
  have e: "handleExpiration example_running = Inr example_expired"
    by (simp add: handleExpiration_def clearInterval_def Let_def
        example_expired_def example_running_def example_page_def)
  have h: "headStyles example_expired = [UrgentPulseStyle, ExpiredBounceStyle]"
    by (simp add: example_expired_def)
  show ?thesis
    using expiration_reentry [OF c, of "[6001, 7001, 8001, 9001, 10001]"] c e h
    by auto
qed

text \<open>
  The tick at 5001 expires the example timer; a tick processed once more at 6001, or the
  handler called once more, leaves a second expiry style in the head.
\<close>

theorem expiration_reentry_counterexample:
  "updateDisplay 5001 example_running = Inr example_expired
   \<and> updateDisplay 6001 example_expired
       = Inr (example_expired\<lparr>headStyles :=
                [UrgentPulseStyle, ExpiredBounceStyle, ExpiredBounceStyle]\<rparr>)
   \<and> handleExpiration example_expired
       = Inr (example_expired\<lparr>headStyles :=
                [UrgentPulseStyle, ExpiredBounceStyle, ExpiredBounceStyle]\<rparr>)
   \<and> handleExpiration example_expired \<noteq> Inr example_expired"
  by (simp add: updateDisplay_def handleExpiration_def clearInterval_def Let_def
      example_expired_def example_running_def example_page_def)


section \<open>Reveal targets\<close>

lemma revealed_not_hidden: "revealed el \<Longrightarrow> \<not> hidden el"
  by (simp add: revealed_def hidden_def)

lemma handle_entry_reveals:
  assumes "isIntersecting e"
  shows "revealed (store (handle_entry st e) (target e))
       \<and> target e \<notin> set (observed (handle_entry st e))"
  using assms by (simp add: handle_entry_def unobserve_def animateElement_def revealed_def)

lemma handle_entry_keeps:
  assumes "revealed (store st t) \<and> t \<notin> set (observed st)"
  shows "revealed (store (handle_entry st e) t) \<and> t \<notin> set (observed (handle_entry st e))"
  using assms by (simp add: handle_entry_def unobserve_def animateElement_def revealed_def)

lemma foldl_handle_entry_keeps:
  assumes "revealed (store st t) \<and> t \<notin> set (observed st)"
  shows "revealed (store (foldl handle_entry st es) t)
       \<and> t \<notin> set (observed (foldl handle_entry st es))"
  using assms
proof (induction es arbitrary: st)
  case Nil
  then show ?case by simp
next
  case (Cons e es)
  show ?case
    using Cons.IH [OF handle_entry_keeps [OF Cons.prems]] by simp
qed

lemma intersection_callback_keeps:
  assumes "revealed (store st t) \<and> t \<notin> set (observed st)"
  shows "revealed (store (intersection_callback es st) t)
       \<and> t \<notin> set (observed (intersection_callback es st))"
  unfolding intersection_callback_def using assms by (rule foldl_handle_entry_keeps)

lemma intersection_callback_reveals:
  assumes "e \<in> set es" and "isIntersecting e"
  shows "revealed (store (intersection_callback es st) (target e))
       \<and> target e \<notin> set (observed (intersection_callback es st))"
proof -
  obtain pre post where es: "es = pre @ e # post"
    using assms(1) by (auto simp add: in_set_conv_decomp)
  have "intersection_callback es st
      = foldl handle_entry (handle_entry (foldl handle_entry st pre) e) post"
    by (simp add: intersection_callback_def es)
  then show ?thesis
    using foldl_handle_entry_keeps [OF handle_entry_reveals [OF assms(2)]] by simp
qed

lemma deliver_keeps:
  assumes "revealed (store st t) \<and> t \<notin> set (observed st)"
  shows "revealed (store (deliver batches st) t) \<and> t \<notin> set (observed (deliver batches st))"
  using assms unfolding deliver_def
proof (induction batches arbitrary: st)
  case Nil
  then show ?case by simp
next
  case (Cons b bs)
  show ?case
    using Cons.IH [OF intersection_callback_keeps [OF Cons.prems]] by simp
qed

text \<open>
  Claim C6. Once a reveal target has been put into the revealed state (opacity 1, offset
  0) by an intersecting entry, it is no longer observed, and whatever batches of
  intersection entries the browser delivers afterwards, it stays revealed and unobserved:
  it never returns to the hidden state.
\<close>

theorem revealed_target_stays_revealed:
  assumes "e \<in> set entries" and "isIntersecting e"
  shows "revealed (store (intersection_callback entries st) (target e))
       \<and> target e \<notin> set (observed (intersection_callback entries st))
       \<and> revealed (store (deliver later (intersection_callback entries st)) (target e))
       \<and> \<not> hidden (store (deliver later (intersection_callback entries st)) (target e))
       \<and> target e \<notin> set (observed (deliver later (intersection_callback entries st)))"
proof -
  note first = intersection_callback_reveals [OF assms, of st]
  note after = deliver_keeps [OF first, of later]
  show ?thesis
    using first after revealed_not_hidden by blast
qed

theorem revealed_target_stays_revealed_witness:
  "hidden (store example_reveal 5) \<and> 5 \<in> set (observed example_reveal)
   \<and> revealed (store (deliver [[\<lparr>target = 5, isIntersecting = False\<rparr>],
                                 [\<lparr>target = 3, isIntersecting = True\<rparr>,
                                  \<lparr>target = 5, isIntersecting = True\<rparr>]]
        (intersection_callback [\<lparr>target = 5, isIntersecting = True\<rparr>] example_reveal)) 5)
   \<and> 5 \<notin> set (observed (deliver [[\<lparr>target = 5, isIntersecting = False\<rparr>],
                                 [\<lparr>target = 3, isIntersecting = True\<rparr>,
                                  \<lparr>target = 5, isIntersecting = True\<rparr>]]
        (intersection_callback [\<lparr>target = 5, isIntersecting = True\<rparr>] example_reveal)))"
proof -
  have start: "hidden (store example_reveal 5) \<and> 5 \<in> set (observed example_reveal)"
    by (simp add: example_reveal_def setupIntersectionObserver_def prepare_element_def
        observe_def hidden_def enumerate_eq_zip upt_rec)
  show ?thesis
    using start
      revealed_target_stays_revealed [of "\<lparr>target = 5, isIntersecting = True\<rparr>"
        "[\<lparr>target = 5, isIntersecting = True\<rparr>]"
        example_reveal
        "[[\<lparr>target = 5, isIntersecting = False\<rparr>],
          [\<lparr>target = 3, isIntersecting = True\<rparr>, \<lparr>target = 5, isIntersecting = True\<rparr>]]"]
    by simp
qed

section \<open>The throttled scroll handler\<close>

lemma scroll_event_throttled:
  assumes "inThrottle th"
  shows "scroll_event y (th, p, reads) = (th, p\<lparr>scrollY := y\<rparr>, reads)"
  using assms by (simp add: scroll_event_def throttle_call_def)

lemma run_scrolls_throttled:
  assumes "inThrottle th"
  shows "run_scrolls ys (th, p, reads) = (th, foldl (\<lambda>p y. p\<lparr>scrollY := y\<rparr>) p ys, reads)"
  unfolding run_scrolls_def
  by (induction ys arbitrary: p) (simp_all add: scroll_event_throttled [OF assms])

lemma scroll_event_open:
  assumes "\<not> inThrottle th"
  shows "scroll_event y (th, p, reads) =
     (th\<lparr>inThrottle := True, resetTimeouts := Suc (resetTimeouts th)\<rparr>,
      handleScroll (p\<lparr>scrollY := y\<rparr>), reads @ [y])"
  using assms by (simp add: scroll_event_def throttle_call_def recorded_def)

lemma throttle_reset_reopens:
  "scroll_event y (throttle_reset th, p, reads) =
     ((throttle_reset th)\<lparr>inThrottle := True,
         resetTimeouts := Suc (resetTimeouts (throttle_reset th))\<rparr>,
      handleScroll (p\<lparr>scrollY := y\<rparr>), reads @ [y])"
  by (rule scroll_event_open) (simp add: throttle_reset_def)

text \<open>
  Claim C2, as it holds. For every sequence of N \<ge> 1 scroll events that arrive within
  one throttle interval (the first finds the throttle open and no reset runs between
  them), the handler body executes exactly once, at the first event, and reads the scroll
  offset of that first event; the later events of the interval only move the page and
  their offsets are not used.
\<close>

theorem throttle_runs_body_once_at_first_event:
  assumes "\<not> inThrottle th"
  shows "run_scrolls (y # ys) (th, p, reads) =
     (th\<lparr>inThrottle := True, resetTimeouts := Suc (resetTimeouts th)\<rparr>,
      foldl (\<lambda>p y. p\<lparr>scrollY := y\<rparr>) (handleScroll (p\<lparr>scrollY := y\<rparr>)) ys,
      reads @ [y])"
proof -
  have "run_scrolls (y # ys) (th, p, reads) = run_scrolls ys (scroll_event y (th, p, reads))"
    by (simp add: run_scrolls_def)
  also have "\<dots> = run_scrolls ys
     (th\<lparr>inThrottle := True, resetTimeouts := Suc (resetTimeouts th)\<rparr>,
      handleScroll (p\<lparr>scrollY := y\<rparr>), reads @ [y])"
    by (simp only: scroll_event_open [OF assms])
  also have "\<dots> = (th\<lparr>inThrottle := True, resetTimeouts := Suc (resetTimeouts th)\<rparr>,
      foldl (\<lambda>p y. p\<lparr>scrollY := y\<rparr>) (handleScroll (p\<lparr>scrollY := y\<rparr>)) ys,
      reads @ [y])"
    by (rule run_scrolls_throttled) simp
  finally show ?thesis .
qed

theorem throttle_runs_body_once_at_first_event_witness:
  "\<not> inThrottle fresh_throttle
   \<and> snd (snd (run_scrolls [30, 60, 120] (fresh_throttle, example_scroll_page, []))) = [30]
   \<and> scrollY (fst (snd (run_scrolls [30, 60, 120] (fresh_throttle, example_scroll_page, [])))) = 120
   \<and> map_option backdropFilter
        (navbar (fst (snd (run_scrolls [30, 60, 120] (fresh_throttle, example_scroll_page, [])))))
       = Some (Lit ''blur(10px)'')"
proof -
  have f: "\<not> inThrottle fresh_throttle"
    by (simp add: fresh_throttle_def)
  show ?thesis
    using f throttle_runs_body_once_at_first_event [OF f, of 30 "[60, 120]" example_scroll_page "[]"]
    by (simp add: handleScroll_def updateParallax_def example_scroll_page_def Let_def)
qed

text \<open>
  Two scroll events in one interval, to offsets 0 and 200: the one execution of the body
  read 0, and the indicator keeps the opacity that offset 0 gives, although the page is at
  200, where the body would have hidden it.
\<close>

theorem throttle_last_offset_counterexample:
  "snd (snd (run_scrolls [0, 200] (fresh_throttle, example_scroll_page, []))) = [0]
   \<and> scrollY (fst (snd (run_scrolls [0, 200] (fresh_throttle, example_scroll_page, [])))) = 200
   \<and> map_option opacity
        (scrollIndicator (fst (snd (run_scrolls [0, 200] (fresh_throttle, example_scroll_page, [])))))
       = Some (Lit ''0.7'')
   \<and> map_option opacity (scrollIndicator (handleScroll (example_scroll_page\<lparr>scrollY := 200\<rparr>)))
       = Some (Lit ''0'')"
  by (simp add: run_scrolls_def scroll_event_def throttle_call_def recorded_def fresh_throttle_def
      handleScroll_def updateParallax_def example_scroll_page_def Let_def)


end
